theory Spec2Isabelle
  imports Main
begin

section \<open>Errors (utils/app-error.ts)\<close>

text \<open>
  The exception classes of \<^verbatim>\<open>app-error.ts\<close>, each carrying its message. \<open>TypeError\<close>
  is the JavaScript runtime error raised by a method call on \<^verbatim>\<open>undefined\<close>;
  \<open>JsonWebTokenError\<close> and \<open>TokenExpiredError\<close> are the errors thrown by the
  \<^verbatim>\<open>jsonwebtoken\<close> library; \<open>PlainError\<close> is a \<^verbatim>\<open>new Error(msg)\<close> that is no \<^verbatim>\<open>AppError\<close>
  (a library or driver failure).
\<close>

datatype exn =
    NotFoundException string
  | BadRequestException string
  | UnauthorizedException string
  | JsonWebTokenError string
  | TokenExpiredError
  | TypeError
  | PlainError string

fun isUnauthorizedException :: "exn \<Rightarrow> bool" where
  "isUnauthorizedException (UnauthorizedException m) = True"
| "isUnauthorizedException e = False"

fun isNotFoundException :: "exn \<Rightarrow> bool" where
  "isNotFoundException (NotFoundException m) = True"
| "isNotFoundException e = False"

section \<open>Permission guard (utils/role-guard.ts)\<close>

text \<open>
  Roles and permissions are the string values of the enums of \<^verbatim>\<open>role.enum.ts\<close>.
  The table \<^verbatim>\<open>RolePermissions\<close> (utils/role-permission.ts) is a parameter: a
  JavaScript object indexed by role name, \<open>None\<close> standing for a key that is not in the
  object (the lookup yields \<^verbatim>\<open>undefined\<close>).
\<close>

type_synonym RoleType = string
type_synonym PermissionType = string
type_synonym role_table = "RoleType \<Rightarrow> PermissionType list option"

text \<open>
  \<^verbatim>\<open>requiredPermissions.every(p => permissions.includes(p))\<close>: on the empty array
  \<^verbatim>\<open>every\<close> never calls its callback; on a non-empty array with \<^verbatim>\<open>permissions\<close>
  undefined the first call raises a \<^verbatim>\<open>TypeError\<close>.
\<close>

fun includes_arr :: "'a list \<Rightarrow> 'a \<Rightarrow> bool" where
  "includes_arr [] p = False"
| "includes_arr (x # xs) p = (if x = p then True else includes_arr xs p)"

fun every :: "('a \<Rightarrow> bool) \<Rightarrow> 'a list \<Rightarrow> bool" where
  "every f [] = True"
| "every f (x # xs) = (if f x then every f xs else False)"

definition roleGuard :: "role_table \<Rightarrow> RoleType \<Rightarrow> PermissionType list \<Rightarrow> exn + unit" where
  "roleGuard RolePermissions role requiredPermissions =
     (case RolePermissions role of
        None \<Rightarrow> (if requiredPermissions = [] then Inr () else Inl TypeError)
      | Some permissions \<Rightarrow>
          (let hasPermission = every (\<lambda>permission. includes_arr permissions permission) requiredPermissions
           in if \<not> hasPermission
              then Inl (UnauthorizedException
                     ''You do not have the necessary permissions to perform this action'')
              else Inr ()))"

section \<open>Documents and collections\<close>

text \<open>
  Object ids are natural numbers; a collection is the list of its documents in insertion
  order. Only the fields read or written by the modelled services are kept.
\<close>

type_synonym oid = nat

record RoleDocument =
  role_id :: oid
  role_name :: RoleType

record WorkspaceDocument =
  ws_id :: oid
  ws_owner :: oid
  inviteCode :: string

record MemberDocument =
  userId :: oid
  workspaceId :: oid
  role :: oid

record UserDocument =
  user_id :: oid
  email :: string
  password :: "string option"
  isActive :: bool
  currentWorkspace :: "oid option"

datatype ProviderEnum = GOOGLE | EMAIL

record AccountDocument =
  acc_userId :: oid
  provider :: ProviderEnum
  providerId :: string

text \<open>
  \<open>next_oid\<close> is the source of fresh object ids: a new document gets the id \<open>next_oid\<close>,
  which no earlier document has.
\<close>

record db =
  users :: "UserDocument list"
  accounts :: "AccountDocument list"
  workspaces :: "WorkspaceDocument list"
  members :: "MemberDocument list"
  roles :: "RoleDocument list"
  next_oid :: oid

text \<open>\<^verbatim>\<open>Model.findOne(filter)\<close>: the first document that matches, if any.\<close>

fun findOne :: "('a \<Rightarrow> bool) \<Rightarrow> 'a list \<Rightarrow> 'a option" where
  "findOne f [] = None"
| "findOne f (x # xs) = (if f x then Some x else findOne f xs)"

section \<open>Role resolver (services/member.service.ts)\<close>

text \<open>
  \<^verbatim>\<open>populate("role")\<close> replaces the role id of the member by the role document, or by
  null when no such role exists; \<^verbatim>\<open>member.role?.name\<close> is then undefined (\<open>None\<close>).
\<close>

definition getMemberRoleInWorkspace :: "db \<Rightarrow> oid \<Rightarrow> oid \<Rightarrow> exn + RoleType option" where
  "getMemberRoleInWorkspace d uid wid =
     (case findOne (\<lambda>w. ws_id w = wid) (workspaces d) of
        None \<Rightarrow> Inl (NotFoundException ''Workspace not found'')
      | Some workspace \<Rightarrow>
          (case findOne (\<lambda>m. userId m = uid \<and> workspaceId m = wid) (members d) of
             None \<Rightarrow> Inl (UnauthorizedException ''You are not a member of this workspace'')
           | Some member \<Rightarrow>
               Inr (map_option role_name (findOne (\<lambda>r. role_id r = role member) (roles d)))))"

text \<open>No Membership row exists for the pair.\<close>

definition no_membership :: "db \<Rightarrow> oid \<Rightarrow> oid \<Rightarrow> bool" where
  "no_membership d uid wid = (\<not> list_ex (\<lambda>m. userId m = uid \<and> workspaceId m = wid) (members d))"

definition workspace_exists :: "db \<Rightarrow> oid \<Rightarrow> bool" where
  "workspace_exists d wid = list_ex (\<lambda>w. ws_id w = wid) (workspaces d)"

definition empty_db :: db where
  "empty_db = \<lparr>users = [], accounts = [], workspaces = [], members = [], roles = [], next_oid = 0\<rparr>"

section \<open>Membership services (services/member.service.ts, workspace.service.ts, auth.service.ts)\<close>

text \<open>
  Every service takes the database and returns its result (or the exception thrown)
  together with the database it leaves. A service that throws before its first write, or
  inside a transaction that is then aborted, leaves the database as it found it.
  \<open>duplicate_key\<close> is the driver's error for a violated unique index
  (\<^verbatim>\<open>inviteCode\<close> of a workspace, \<^verbatim>\<open>providerId\<close> of an account).
\<close>

definition duplicate_key :: exn where
  "duplicate_key = PlainError ''E11000 duplicate key error''"

definition joinWorkspaceByInviteService ::
  "db \<Rightarrow> oid \<Rightarrow> string \<Rightarrow> (exn + oid \<times> RoleType) \<times> db" where
  "joinWorkspaceByInviteService d uid code =
     (case findOne (\<lambda>w. inviteCode w = code) (workspaces d) of
        None \<Rightarrow> (Inl (NotFoundException ''Invalid invite code or workspace not found''), d)
      | Some workspace \<Rightarrow>
          (case findOne (\<lambda>m. userId m = uid \<and> workspaceId m = ws_id workspace) (members d) of
             Some existingMember \<Rightarrow>
               (Inl (BadRequestException ''You are already a member of this workspace''), d)
           | None \<Rightarrow>
               (case findOne (\<lambda>r. role_name r = ''MEMBER'') (roles d) of
                  None \<Rightarrow> (Inl (NotFoundException ''Role not found''), d)
                | Some r \<Rightarrow>
                    (let newMember = \<lparr>userId = uid, workspaceId = ws_id workspace, role = role_id r\<rparr>
                     in (Inr (ws_id workspace, role_name r),
                         d\<lparr>members := members d @ [newMember]\<rparr>)))))"

text \<open>
  The same service one awaited database call at a time. Between two awaits the event
  loop may run the steps of other requests. A request is at one of its four awaits, with
  the values it holds by then, or has returned.
\<close>

datatype join_pc =
    AtFindWorkspace
  | AtFindMember WorkspaceDocument
  | AtFindRole WorkspaceDocument
  | AtSave WorkspaceDocument RoleDocument
  | Returned "exn + oid \<times> RoleType"

record join_request =
  j_userId :: oid
  j_inviteCode :: string
  j_pc :: join_pc

definition join_step :: "db \<Rightarrow> join_request \<Rightarrow> join_request \<times> db" where
  "join_step d r =
     (case j_pc r of
        AtFindWorkspace \<Rightarrow>
          (case findOne (\<lambda>w. inviteCode w = j_inviteCode r) (workspaces d) of
             None \<Rightarrow>
               (r\<lparr>j_pc := Returned (Inl (NotFoundException
                                           ''Invalid invite code or workspace not found''))\<rparr>, d)
           | Some workspace \<Rightarrow> (r\<lparr>j_pc := AtFindMember workspace\<rparr>, d))
      | AtFindMember workspace \<Rightarrow>
          (case findOne (\<lambda>m. userId m = j_userId r \<and> workspaceId m = ws_id workspace) (members d) of
             Some existingMember \<Rightarrow>
               (r\<lparr>j_pc := Returned (Inl (BadRequestException
                                           ''You are already a member of this workspace''))\<rparr>, d)
           | None \<Rightarrow> (r\<lparr>j_pc := AtFindRole workspace\<rparr>, d))
      | AtFindRole workspace \<Rightarrow>
          (case findOne (\<lambda>ro. role_name ro = ''MEMBER'') (roles d) of
             None \<Rightarrow> (r\<lparr>j_pc := Returned (Inl (NotFoundException ''Role not found''))\<rparr>, d)
           | Some ro \<Rightarrow> (r\<lparr>j_pc := AtSave workspace ro\<rparr>, d))
      | AtSave workspace ro \<Rightarrow>
          (let newMember = \<lparr>userId = j_userId r, workspaceId = ws_id workspace, role = role_id ro\<rparr>
           in (r\<lparr>j_pc := Returned (Inr (ws_id workspace, role_name ro))\<rparr>,
               d\<lparr>members := members d @ [newMember]\<rparr>))
      | Returned res \<Rightarrow> (r, d))"

text \<open>One request run alone: its four steps one after the other.\<close>

fun join_steps :: "nat \<Rightarrow> db \<Rightarrow> join_request \<Rightarrow> join_request \<times> db" where
  "join_steps 0 d r = (r, d)"
| "join_steps (Suc n) d r = (case join_step d r of (r', d') \<Rightarrow> join_steps n d' r')"

text \<open>
  Several requests in flight: a schedule names, step by step, the request whose next
  awaited call completes.
\<close>

definition schedule_step :: "db \<times> join_request list \<Rightarrow> nat \<Rightarrow> db \<times> join_request list" where
  "schedule_step st i =
     (case st of (d, rs) \<Rightarrow>
        if i < length rs
        then (case join_step d (rs ! i) of (r', d') \<Rightarrow> (d', rs[i := r']))
        else (d, rs))"

definition interleave :: "db \<times> join_request list \<Rightarrow> nat list \<Rightarrow> db \<times> join_request list" where
  "interleave st sched = foldl schedule_step st sched"

text \<open>\<^verbatim>\<open>user.save()\<close> after setting \<^verbatim>\<open>currentWorkspace\<close>: the user document with that id is rewritten.\<close>

definition set_currentWorkspace :: "oid \<Rightarrow> oid option \<Rightarrow> UserDocument list \<Rightarrow> UserDocument list" where
  "set_currentWorkspace uid cw us =
     map (\<lambda>u. if user_id u = uid then u\<lparr>currentWorkspace := cw\<rparr> else u) us"

text \<open>
  \<open>code\<close> is the invite code that \<^verbatim>\<open>generateInviteCode\<close> draws for the new workspace.
\<close>

definition createWorkspaceService ::
  "db \<Rightarrow> oid \<Rightarrow> string \<Rightarrow> (exn + WorkspaceDocument) \<times> db" where
  "createWorkspaceService d uid code =
     (case findOne (\<lambda>u. user_id u = uid) (users d) of
        None \<Rightarrow> (Inl (NotFoundException ''User not found''), d)
      | Some user \<Rightarrow>
          (case findOne (\<lambda>r. role_name r = ''OWNER'') (roles d) of
             None \<Rightarrow> (Inl (NotFoundException ''Owner role not found''), d)
           | Some ownerRole \<Rightarrow>
               if list_ex (\<lambda>w. inviteCode w = code) (workspaces d) then (Inl duplicate_key, d)
               else
                 (let workspace = \<lparr>ws_id = next_oid d, ws_owner = user_id user, inviteCode = code\<rparr>;
                      member = \<lparr>userId = user_id user, workspaceId = ws_id workspace,
                                role = role_id ownerRole\<rparr>
                  in (Inr workspace,
                      d\<lparr>users := set_currentWorkspace (user_id user) (Some (ws_id workspace)) (users d),
                        workspaces := workspaces d @ [workspace],
                        members := members d @ [member],
                        next_oid := Suc (next_oid d)\<rparr>))))"

text \<open>
  The user schema declares \<^verbatim>\<open>email\<close> with \<^verbatim>\<open>lowercase\<close> and \<^verbatim>\<open>trim\<close>: the value stored
  in a user document, and the value a query on users compares with, is the given string
  trimmed of white space at both ends and in lower case. Strings are ASCII.
\<close>

definition lower_char :: "char \<Rightarrow> char" where
  "lower_char c =
     (if 65 \<le> (of_char c :: nat) \<and> (of_char c :: nat) \<le> 90
      then (case c of Char b0 b1 b2 b3 b4 b5 b6 b7 \<Rightarrow> Char b0 b1 b2 b3 b4 True b6 b7)
      else c)"

definition toLowerCase :: "string \<Rightarrow> string" where
  "toLowerCase s = map lower_char s"

definition is_space :: "char \<Rightarrow> bool" where
  "is_space c = ((of_char c :: nat) = 32 \<or> (9 \<le> (of_char c :: nat) \<and> (of_char c :: nat) \<le> 13))"

definition trim :: "string \<Rightarrow> string" where
  "trim s = rev (dropWhile is_space (rev (dropWhile is_space s)))"

definition normalize_email :: "string \<Rightarrow> string" where
  "normalize_email s = toLowerCase (trim s)"

text \<open>
  The password hash of \<^verbatim>\<open>utils/bcrypt.ts\<close> is symbolic: \<open>compareValue v h\<close> holds exactly
  when \<open>h\<close> is the hash of \<open>v\<close>. The pre-save hook of the user model hashes a non-empty
  password only.
\<close>

definition hashValue :: "string \<Rightarrow> string" where
  "hashValue v = ''bcrypt$'' @ v"

definition compareValue :: "string \<Rightarrow> string \<Rightarrow> bool" where
  "compareValue v hashedValue = (hashedValue = hashValue v)"

definition pre_save_password :: "string \<Rightarrow> string" where
  "pre_save_password pw = (if pw \<noteq> [] then hashValue pw else pw)"

text \<open>
  The part shared by \<^verbatim>\<open>registerUserService\<close> and \<^verbatim>\<open>loginOrCreateAccountService\<close>: inside
  the transaction, save the user, its account, a workspace of its own and the owner
  membership. Any exception aborts the transaction. The account keeps the provider id
  as it was given; the user keeps the normalised e-mail.
\<close>

definition create_user_with_workspace ::
  "db \<Rightarrow> string \<Rightarrow> string option \<Rightarrow> ProviderEnum \<Rightarrow> string \<Rightarrow> string \<Rightarrow> (exn + UserDocument \<times> oid) \<times> db" where
  "create_user_with_workspace d em pw prov pid code =
     (if list_ex (\<lambda>u. email u = normalize_email em) (users d) then (Inl duplicate_key, d)
      else if list_ex (\<lambda>a. providerId a = pid) (accounts d) then (Inl duplicate_key, d)
      else if list_ex (\<lambda>w. inviteCode w = code) (workspaces d) then (Inl duplicate_key, d)
      else
        (case findOne (\<lambda>r. role_name r = ''OWNER'') (roles d) of
           None \<Rightarrow> (Inl (NotFoundException ''Owner role not found''), d)
         | Some ownerRole \<Rightarrow>
             (let uid = next_oid d;
                  wid = Suc (next_oid d);
                  user = \<lparr>user_id = uid, email = normalize_email em,
                          password = map_option pre_save_password pw,
                          isActive = True, currentWorkspace = Some wid\<rparr>;
                  account = \<lparr>acc_userId = uid, provider = prov, providerId = pid\<rparr>;
                  workspace = \<lparr>ws_id = wid, ws_owner = uid, inviteCode = code\<rparr>;
                  member = \<lparr>userId = uid, workspaceId = wid, role = role_id ownerRole\<rparr>
              in (Inr (user, wid),
                  d\<lparr>users := users d @ [user],
                    accounts := accounts d @ [account],
                    workspaces := workspaces d @ [workspace],
                    members := members d @ [member],
                    next_oid := Suc wid\<rparr>))))"

definition registerUserService ::
  "db \<Rightarrow> string \<Rightarrow> string \<Rightarrow> string \<Rightarrow> (exn + oid \<times> oid) \<times> db" where
  "registerUserService d em pw code =
     (case findOne (\<lambda>u. email u = normalize_email em) (users d) of
        Some existingUser \<Rightarrow> (Inl (BadRequestException ''Email already exists''), d)
      | None \<Rightarrow>
          (case create_user_with_workspace d em (Some pw) EMAIL em code of
             (Inl e, d') \<Rightarrow> (Inl e, d')
           | (Inr (user, wid), d') \<Rightarrow> (Inr (user_id user, wid), d')))"

definition loginOrCreateAccountService ::
  "db \<Rightarrow> ProviderEnum \<Rightarrow> string \<Rightarrow> string \<Rightarrow> string \<Rightarrow> (exn + UserDocument) \<times> db" where
  "loginOrCreateAccountService d prov pid em code =
     (case findOne (\<lambda>u. email u = normalize_email em) (users d) of
        Some user \<Rightarrow> (Inr user, d)
      | None \<Rightarrow>
          (case create_user_with_workspace d em None prov pid code of
             (Inl e, d') \<Rightarrow> (Inl e, d')
           | (Inr (user, wid), d') \<Rightarrow> (Inr user, d')))"

text \<open>\<^verbatim>\<open>doc.save()\<close> on a document found by \<^verbatim>\<open>findOne\<close>: that document, the first match, is rewritten.\<close>

fun updateOne :: "('a \<Rightarrow> bool) \<Rightarrow> ('a \<Rightarrow> 'a) \<Rightarrow> 'a list \<Rightarrow> 'a list" where
  "updateOne f g [] = []"
| "updateOne f g (x # xs) = (if f x then g x # xs else x # updateOne f g xs)"

definition changeMemberRoleService ::
  "db \<Rightarrow> oid \<Rightarrow> oid \<Rightarrow> oid \<Rightarrow> (exn + MemberDocument) \<times> db" where
  "changeMemberRoleService d wid memberId roleId =
     (case findOne (\<lambda>w. ws_id w = wid) (workspaces d) of
        None \<Rightarrow> (Inl (NotFoundException ''Workspace not found''), d)
      | Some workspace \<Rightarrow>
          (case findOne (\<lambda>r. role_id r = roleId) (roles d) of
             None \<Rightarrow> (Inl (NotFoundException ''Role not found''), d)
           | Some r \<Rightarrow>
               (case findOne (\<lambda>m. userId m = memberId \<and> workspaceId m = wid) (members d) of
                  None \<Rightarrow> (Inl (PlainError ''Member not found in the workspace''), d)
                | Some member \<Rightarrow>
                    (Inr (member\<lparr>role := role_id r\<rparr>),
                     d\<lparr>members := updateOne (\<lambda>m. userId m = memberId \<and> workspaceId m = wid)
                                     (\<lambda>m. m\<lparr>role := role_id r\<rparr>) (members d)\<rparr>))))"

definition deleteWorkspaceService ::
  "db \<Rightarrow> oid \<Rightarrow> oid \<Rightarrow> (exn + oid option) \<times> db" where
  "deleteWorkspaceService d wid uid =
     (case findOne (\<lambda>w. ws_id w = wid) (workspaces d) of
        None \<Rightarrow> (Inl (NotFoundException ''Workspace not found''), d)
      | Some workspace \<Rightarrow>
          if ws_owner workspace \<noteq> uid
          then (Inl (BadRequestException ''You are not authorized to delete this workspace''), d)
          else
            (case findOne (\<lambda>u. user_id u = uid) (users d) of
               None \<Rightarrow> (Inl (NotFoundException ''User not found''), d)
             | Some user \<Rightarrow>
                 (let ms = filter (\<lambda>m. workspaceId m \<noteq> ws_id workspace) (members d);
                      cw = (if currentWorkspace user = Some wid
                            then map_option workspaceId (findOne (\<lambda>m. userId m = uid) ms)
                            else currentWorkspace user)
                  in (Inr cw,
                      d\<lparr>users := (if currentWorkspace user = Some wid
                                  then set_currentWorkspace uid cw (users d) else users d),
                        workspaces := filter (\<lambda>w. ws_id w \<noteq> ws_id workspace) (workspaces d),
                        members := ms\<rparr>))))"

text \<open>
  The service calls, each run to its end before the next one starts, and the states such
  a sequence of calls reaches from a database without members.
\<close>

datatype service_call =
    Join oid string
  | CreateWorkspace oid string
  | Register string string string
  | LoginOrCreate ProviderEnum string string string
  | ChangeMemberRole oid oid oid
  | DeleteWorkspace oid oid

fun call :: "db \<Rightarrow> service_call \<Rightarrow> db" where
  "call d (Join uid code) = snd (joinWorkspaceByInviteService d uid code)"
| "call d (CreateWorkspace uid code) = snd (createWorkspaceService d uid code)"
| "call d (Register em pw code) = snd (registerUserService d em pw code)"
| "call d (LoginOrCreate prov pid em code) = snd (loginOrCreateAccountService d prov pid em code)"
| "call d (ChangeMemberRole wid memberId roleId) = snd (changeMemberRoleService d wid memberId roleId)"
| "call d (DeleteWorkspace wid uid) = snd (deleteWorkspaceService d wid uid)"

fun run :: "db \<Rightarrow> service_call list \<Rightarrow> db" where
  "run d [] = d"
| "run d (c # cs) = run (call d c) cs"

definition initial :: "db \<Rightarrow> bool" where
  "initial d = (users d = [] \<and> accounts d = [] \<and> workspaces d = [] \<and> members d = [])"

definition membership_key :: "MemberDocument \<Rightarrow> oid \<times> oid" where
  "membership_key m = (userId m, workspaceId m)"

definition at_most_one_membership :: "db \<Rightarrow> bool" where
  "at_most_one_membership d = distinct (map membership_key (members d))"

text \<open>
  The invariant the services keep: at most one membership per pair, and every workspace
  id in use, in a workspace or in a membership, lies below the next fresh id.
\<close>
definition ids_below :: "db \<Rightarrow> bool" where
  "ids_below d =
     (list_all (\<lambda>w. ws_id w < next_oid d) (workspaces d)
      \<and> list_all (\<lambda>m. workspaceId m < next_oid d) (members d))"

definition membership_inv :: "db \<Rightarrow> bool" where
  "membership_inv d = (at_most_one_membership d \<and> ids_below d)"

section \<open>Token codec (utils/jwt.ts)\<close>

text \<open>
  The claims that \<^verbatim>\<open>generateJWT\<close> signs. The id is the object id of the user
  (\<^verbatim>\<open>user._id.toString()\<close>); the role is optional.
\<close>

record JWTPayload =
  jwt_id :: oid
  jwt_email :: string
  jwt_role :: "string option"

text \<open>
  The \<^verbatim>\<open>jsonwebtoken\<close> library, as far as \<^verbatim>\<open>jwt.ts\<close> uses it. The signed body is
  the payload with the registered claims the library adds: issued-at, expiry (seconds),
  issuer and audience. The HMAC is symbolic: a signature is the pair of the key and the
  body it was computed from, so it verifies under that key for that body only. A cookie
  value is either a compact token or some other string.
\<close>

record jwt_body =
  claims :: JWTPayload
  iat :: nat
  exp :: "nat option"
  iss :: "string option"
  aud :: "string option"

datatype signature = HS256 string jwt_body

datatype token_string = Raw string | Compact jwt_body signature

definition jwt_sign :: "JWTPayload \<Rightarrow> string \<Rightarrow> nat \<Rightarrow> string \<Rightarrow> string \<Rightarrow> nat \<Rightarrow> token_string" where
  "jwt_sign payload secret expiresIn issuer audience now =
     (let body = \<lparr>claims = payload, iat = now, exp = Some (now + expiresIn),
                  iss = Some issuer, aud = Some audience\<rparr>
      in Compact body (HS256 secret body))"

text \<open>
  \<^verbatim>\<open>jwt.verify\<close> checks, in this order: the shape of the token, the signature, the
  expiry (\<^verbatim>\<open>clockTimestamp >= payload.exp\<close> is expired), the audience, the issuer; it
  returns the decoded body.
\<close>

definition jwt_verify :: "token_string \<Rightarrow> string \<Rightarrow> string \<Rightarrow> string \<Rightarrow> nat \<Rightarrow> exn + jwt_body" where
  "jwt_verify token secret issuer audience now =
     (case token of
        Raw s \<Rightarrow> Inl (JsonWebTokenError ''jwt malformed'')
      | Compact body sig \<Rightarrow>
          if sig \<noteq> HS256 secret body then Inl (JsonWebTokenError ''invalid signature'')
          else if (case exp body of None \<Rightarrow> False | Some e \<Rightarrow> e \<le> now) then Inl TokenExpiredError
          else if aud body \<noteq> Some audience
            then Inl (JsonWebTokenError (''jwt audience invalid. expected: '' @ audience))
          else if iss body \<noteq> Some issuer
            then Inl (JsonWebTokenError (''jwt issuer invalid. expected: '' @ issuer))
          else Inr body)"

text \<open>The configuration read by the server, and the clock in seconds.\<close>

record config =
  SESSION_SECRET :: string
  NODE_ENV :: string

definition generateJWT :: "config \<Rightarrow> nat \<Rightarrow> JWTPayload \<Rightarrow> token_string" where
  "generateJWT cfg now payload =
     jwt_sign payload (SESSION_SECRET cfg) (24 * 60 * 60) ''team-sync-app'' ''team-sync-users'' now"

definition verifyJWT :: "config \<Rightarrow> nat \<Rightarrow> token_string \<Rightarrow> exn + jwt_body" where
  "verifyJWT cfg now token =
     jwt_verify token (SESSION_SECRET cfg) ''team-sync-app'' ''team-sync-users'' now"

section \<open>Credential cookies (utils/jwt.ts)\<close>

record cookie_options =
  httpOnly :: bool
  secure :: bool
  sameSite :: string
  path :: string
  maxAge :: "nat option"

type_synonym sid = nat

text \<open>
  The cookies of the application: the signed token, the user summary, and the session
  id that the session middleware of \<^verbatim>\<open>index.ts\<close> issues under the name \<^verbatim>\<open>session_id\<close>.
\<close>

datatype cookie_value = TokenValue token_string | UserValue JWTPayload | SessionId sid

text \<open>A \<^verbatim>\<open>Set-Cookie\<close> header written by \<^verbatim>\<open>res.cookie\<close> or \<^verbatim>\<open>res.clearCookie\<close>.\<close>

datatype set_cookie =
    SetCookie string cookie_value cookie_options
  | ClearCookie string cookie_options

definition setAuthCookies :: "config \<Rightarrow> nat \<Rightarrow> JWTPayload \<Rightarrow> set_cookie list" where
  "setAuthCookies cfg now user =
     (let token = generateJWT cfg now user
      in [SetCookie ''auth_token'' (TokenValue token)
            \<lparr>httpOnly = True, secure = (NODE_ENV cfg = ''production''),
             sameSite = (if NODE_ENV cfg = ''production'' then ''none'' else ''lax''),
             path = ''/'', maxAge = Some (24 * 60 * 60 * 1000)\<rparr>,
          SetCookie ''auth_user''
            (UserValue \<lparr>jwt_id = jwt_id user, jwt_email = jwt_email user, jwt_role = jwt_role user\<rparr>)
            \<lparr>httpOnly = False, secure = (NODE_ENV cfg = ''production''),
             sameSite = (if NODE_ENV cfg = ''production'' then ''none'' else ''lax''),
             path = ''/'', maxAge = Some (24 * 60 * 60 * 1000)\<rparr>])"

definition clearAuthCookies :: "config \<Rightarrow> set_cookie list" where
  "clearAuthCookies cfg =
     (let cookieOptions = \<lparr>httpOnly = True, secure = (NODE_ENV cfg = ''production''),
                           sameSite = (if NODE_ENV cfg = ''production'' then ''none'' else ''lax''),
                           path = ''/'', maxAge = None\<rparr>
      in [ClearCookie ''auth_token'' cookieOptions,
          ClearCookie ''auth_user'' (cookieOptions\<lparr>httpOnly := False\<rparr>)])"

text \<open>
  The client's cookie jar. Issuance and clearing both use the path \<^verbatim>\<open>/\<close> and no
  domain, so the name identifies the cookie: a \<^verbatim>\<open>Set-Cookie\<close> header stores its value,
  a clearing header removes the cookie of that name.
\<close>

type_synonym cookie_jar = "string \<Rightarrow> cookie_value option"

fun apply_set_cookie :: "cookie_jar \<Rightarrow> set_cookie \<Rightarrow> cookie_jar" where
  "apply_set_cookie jar (SetCookie name v opts) = jar(name \<mapsto> v)"
| "apply_set_cookie jar (ClearCookie name opts) = jar(name := None)"

definition apply_set_cookies :: "cookie_jar \<Rightarrow> set_cookie list \<Rightarrow> cookie_jar" where
  "apply_set_cookies jar hs = foldl apply_set_cookie jar hs"

fun sets_cookie :: "string \<Rightarrow> set_cookie \<Rightarrow> bool" where
  "sets_cookie name (SetCookie n v opts) = (n = name)"
| "sets_cookie name (ClearCookie n opts) = False"

fun clears_cookie :: "string \<Rightarrow> set_cookie \<Rightarrow> bool" where
  "clears_cookie name (ClearCookie n opts) = (n = name)"
| "clears_cookie name (SetCookie n v opts) = False"

section \<open>Hybrid authentication resolver (middlewares/auth.middleware.ts)\<close>

text \<open>
  The request as the middleware reads it: \<^verbatim>\<open>req.user\<close>, attached by the session layer
  when the session references a user, and \<^verbatim>\<open>req.cookies\<close>, the object a cookie-parsing
  middleware would attach, from cookie names to their string values; without such a
  middleware \<^verbatim>\<open>req.cookies\<close> is undefined (\<open>None\<close>). The object the session layer
  attaches is a user document or, as far as the middleware can tell, an object without
  \<^verbatim>\<open>_id\<close>; the \<^verbatim>\<open>_id\<close> of a user document is an object id and never falsy.
\<close>

datatype Express_User = WithId UserDocument | WithoutId

type_synonym parsed_cookies = "string \<Rightarrow> token_string option"

record Request =
  req_user :: "Express_User option"
  cookies :: "parsed_cookies option"

text \<open>\<^verbatim>\<open>req.user && req.user._id\<close>: the user the session attached, if it has an id.\<close>

definition session_identity :: "Request \<Rightarrow> UserDocument option" where
  "session_identity req =
     (case req_user req of
        None \<Rightarrow> None
      | Some WithoutId \<Rightarrow> None
      | Some (WithId user) \<Rightarrow> Some user)"

text \<open>\<^verbatim>\<open>!token\<close> holds when the cookie is missing or is the empty string.\<close>

fun empty_string :: "token_string \<Rightarrow> bool" where
  "empty_string (Raw s) = (s = [])"
| "empty_string (Compact body sig) = False"

definition token_absent :: "token_string option \<Rightarrow> bool" where
  "token_absent t = (case t of None \<Rightarrow> True | Some token \<Rightarrow> empty_string token)"

text \<open>
  The Credential Store answers the call
  \<^verbatim>\<open>UserModel.findById(id).populate('memberships.workspace')\<close> with the user, with null, or
  with a failure (\<open>Inl\<close> the message), which is thrown as a plain error.
\<close>

type_synonym credential_store = "oid \<Rightarrow> string + UserDocument option"

text \<open>
  The store of the repository. The user schema has no path \<^verbatim>\<open>memberships\<close>: when the
  query finds a user, populating that path is refused with a \<^verbatim>\<open>StrictPopulateError\<close>
  (the \<^verbatim>\<open>strictPopulate\<close> default of Mongoose 6 and later); when it finds none there
  is nothing to populate and the answer is null.
\<close>

definition UserModel_findById_populate :: "db \<Rightarrow> credential_store" where
  "UserModel_findById_populate d i =
     (case findOne (\<lambda>u. user_id u = i) (users d) of
        None \<Rightarrow> Inr None
      | Some user \<Rightarrow>
          Inl ''StrictPopulateError: Cannot populate path memberships.workspace because it is not in your schema'')"

text \<open>What the middleware did besides answering: the calls it made, in order.\<close>

datatype io_event = VerifyToken token_string | StoreRead oid

record auth_result =
  outcome :: "exn + UserDocument"
  res_cookies :: "set_cookie list"
  trace :: "io_event list"

text \<open>
  The body of the \<^verbatim>\<open>try\<close> block after the session check: \<open>Inr user\<close> when \<^verbatim>\<open>next()\<close>
  is reached with \<^verbatim>\<open>req.user = user\<close>, \<open>Inl e\<close> when \<open>e\<close> is thrown. Reading
  \<^verbatim>\<open>req.cookies.auth_token\<close> throws a \<^verbatim>\<open>TypeError\<close> when \<^verbatim>\<open>req.cookies\<close> is undefined.
\<close>

definition token_fallback ::
  "config \<Rightarrow> nat \<Rightarrow> credential_store \<Rightarrow> Request \<Rightarrow> (exn + UserDocument) \<times> io_event list" where
  "token_fallback cfg now store req =
     (case cookies req of
        None \<Rightarrow> (Inl TypeError, [])
      | Some c \<Rightarrow>
          (case c ''auth_token'' of
             None \<Rightarrow> (Inl (UnauthorizedException ''Unauthorized. Please log in.''), [])
           | Some token \<Rightarrow>
               if empty_string token
               then (Inl (UnauthorizedException ''Unauthorized. Please log in.''), [])
               else
                 (case verifyJWT cfg now token of
                    Inl e \<Rightarrow> (Inl e, [VerifyToken token])
                  | Inr decoded \<Rightarrow>
                      (case store (jwt_id (claims decoded)) of
                         Inl msg \<Rightarrow>
                           (Inl (PlainError msg),
                            [VerifyToken token, StoreRead (jwt_id (claims decoded))])
                       | Inr None \<Rightarrow>
                           (Inl (UnauthorizedException ''User not found. Please log in again.''),
                            [VerifyToken token, StoreRead (jwt_id (claims decoded))])
                       | Inr (Some user) \<Rightarrow>
                           (Inr user, [VerifyToken token, StoreRead (jwt_id (claims decoded))])))))"

text \<open>
  The \<^verbatim>\<open>catch\<close> block first builds its log entry, which reads
  \<^verbatim>\<open>req.cookies.auth_token\<close> again: with \<^verbatim>\<open>req.cookies\<close> undefined this throws a
  \<^verbatim>\<open>TypeError\<close> out of the block, before the test for an Unauthorized exception and
  before the cookies are cleared.
\<close>

definition requireAuth :: "config \<Rightarrow> nat \<Rightarrow> credential_store \<Rightarrow> Request \<Rightarrow> auth_result" where
  "requireAuth cfg now store req =
     (case session_identity req of
        Some user \<Rightarrow> \<lparr>outcome = Inr user, res_cookies = [], trace = []\<rparr>
      | None \<Rightarrow>
          (case token_fallback cfg now store req of
             (Inr user, tr) \<Rightarrow> \<lparr>outcome = Inr user, res_cookies = [], trace = tr\<rparr>
           | (Inl error, tr) \<Rightarrow>
               (case cookies req of
                  None \<Rightarrow> \<lparr>outcome = Inl TypeError, res_cookies = [], trace = tr\<rparr>
                | Some c \<Rightarrow>
                    if isUnauthorizedException error
                    then \<lparr>outcome = Inl error, res_cookies = [], trace = tr\<rparr>
                    else
                      (let cookieOptions =
                             \<lparr>httpOnly = True, secure = (NODE_ENV cfg = ''production''),
                              sameSite = (if NODE_ENV cfg = ''production'' then ''none'' else ''lax''),
                              path = ''/'', maxAge = None\<rparr>
                       in \<lparr>outcome = Inl (UnauthorizedException
                                            ''Invalid authentication token. Please log in again.''),
                           res_cookies = [ClearCookie ''auth_token'' cookieOptions,
                                          ClearCookie ''auth_user'' (cookieOptions\<lparr>httpOnly := False\<rparr>)],
                           trace = tr\<rparr>))))"

definition store_reads :: "io_event list \<Rightarrow> nat" where
  "store_reads tr = length (filter (\<lambda>e. case e of StoreRead i \<Rightarrow> True | VerifyToken t \<Rightarrow> False) tr)"

section \<open>Login (config/passport.config.ts, controllers/auth.controller.ts)\<close>

text \<open>\<^verbatim>\<open>user.omitPassword()\<close>: the user object without its password field.\<close>

definition omitPassword :: "UserDocument \<Rightarrow> UserDocument" where
  "omitPassword u = u\<lparr>password := None\<rparr>"

text \<open>
  \<^verbatim>\<open>user.comparePassword\<close> hands the stored hash to \<^verbatim>\<open>bcrypt.compare\<close>, which rejects
  an undefined hash with a plain error.
\<close>

definition verifyUserService :: "db \<Rightarrow> string \<Rightarrow> string \<Rightarrow> exn + UserDocument" where
  "verifyUserService d em pw =
     (case findOne (\<lambda>a. provider a = EMAIL \<and> providerId a = em) (accounts d) of
        None \<Rightarrow> Inl (NotFoundException ''Invalid email or password'')
      | Some account \<Rightarrow>
          (case findOne (\<lambda>u. user_id u = acc_userId account) (users d) of
             None \<Rightarrow> Inl (NotFoundException ''User not found for the given account'')
           | Some user \<Rightarrow>
               (case password user of
                  None \<Rightarrow> Inl (PlainError ''data and hash arguments required'')
                | Some h \<Rightarrow>
                    if \<not> compareValue pw h
                    then Inl (UnauthorizedException ''Invalid email or password'')
                    else Inr (omitPassword user))))"

text \<open>
  The arguments \<^verbatim>\<open>passport.authenticate("local", callback)\<close> hands to the callback:
  the error, the user (\<open>None\<close> for \<^verbatim>\<open>false\<close>) and the info message. The local strategy
  fails with \<^verbatim>\<open>Missing credentials\<close> when a field is empty; an exception of the verify
  function is passed on with \<^verbatim>\<open>done(error, false, ...)\<close>, which makes passport call the
  callback with the error alone.
\<close>

record login_body =
  body_email :: "string option"
  body_password :: "string option"

record callback_args =
  cb_err :: "exn option"
  cb_user :: "UserDocument option"
  cb_info :: "string option"

definition passport_authenticate_local :: "db \<Rightarrow> login_body \<Rightarrow> callback_args" where
  "passport_authenticate_local d b =
     (case (body_email b, body_password b) of
        (Some em, Some pw) \<Rightarrow>
          if em = [] \<or> pw = []
          then \<lparr>cb_err = None, cb_user = None, cb_info = Some ''Missing credentials''\<rparr>
          else
            (case verifyUserService d em pw of
               Inl error \<Rightarrow> \<lparr>cb_err = Some error, cb_user = None, cb_info = None\<rparr>
             | Inr user \<Rightarrow> \<lparr>cb_err = None, cb_user = Some user, cb_info = None\<rparr>)
      | _ \<Rightarrow> \<lparr>cb_err = None, cb_user = None, cb_info = Some ''Missing credentials''\<rparr>)"

text \<open>
  What the login controller did: the response it sent (status and message) or the error
  it passed to \<^verbatim>\<open>next\<close>, the user of the session that \<^verbatim>\<open>req.logIn\<close> established, and
  the cookies it wrote. \<open>logIn_err\<close> is the error \<^verbatim>\<open>req.logIn\<close> reports, if any (the
  session could not be saved).
\<close>

record login_result =
  response :: "(nat \<times> string) option"
  forwarded :: "exn option"
  session_user :: "UserDocument option"
  login_cookies :: "set_cookie list"

definition login_callback :: "config \<Rightarrow> nat \<Rightarrow> exn option \<Rightarrow> callback_args \<Rightarrow> login_result" where
  "login_callback cfg now logIn_err args =
     (case cb_err args of
        Some err \<Rightarrow> \<lparr>response = None, forwarded = Some err, session_user = None, login_cookies = []\<rparr>
      | None \<Rightarrow>
          (case cb_user args of
             None \<Rightarrow>
               \<lparr>response = Some (401, (case cb_info args of
                                          None \<Rightarrow> ''Invalid email or password''
                                        | Some m \<Rightarrow> if m = [] then ''Invalid email or password'' else m)),
                forwarded = None, session_user = None, login_cookies = []\<rparr>
           | Some user \<Rightarrow>
               (case logIn_err of
                  Some err \<Rightarrow>
                    \<lparr>response = None, forwarded = Some err, session_user = None, login_cookies = []\<rparr>
                | None \<Rightarrow>
                    \<lparr>response = Some (200, ''Logged in successfully''),
                     forwarded = None, session_user = Some user,
                     login_cookies = setAuthCookies cfg now
                       \<lparr>jwt_id = user_id user, jwt_email = email user, jwt_role = None\<rparr>\<rparr>)))"

definition loginController :: "config \<Rightarrow> nat \<Rightarrow> db \<Rightarrow> exn option \<Rightarrow> login_body \<Rightarrow> login_result" where
  "loginController cfg now d logIn_err b =
     login_callback cfg now logIn_err (passport_authenticate_local d b)"

section \<open>Revocation (controllers/auth.controller.ts)\<close>

text \<open>
  The context of a logout: the client's cookie jar, the session store, the session
  attached to the request (\<^verbatim>\<open>req.session\<close>, by its id) and \<^verbatim>\<open>req.user\<close>.
  \<^verbatim>\<open>req.session.destroy(cb)\<close> detaches the session from the request and asks the store to
  delete it; \<open>destroy_err\<close> is the error the store reports to the callback, if any, in
  which case the store keeps the session.
\<close>

record logout_ctx =
  jar :: cookie_jar
  session_store :: "sid \<Rightarrow> UserDocument option"
  req_session :: "sid option"
  ctx_user :: "UserDocument option"

record logout_result =
  ctx :: logout_ctx
  logout_response :: "nat \<times> string"
  logout_cookies :: "set_cookie list"
  logged :: "exn list"

definition logOutController :: "config \<Rightarrow> exn option \<Rightarrow> logout_ctx \<Rightarrow> logout_result" where
  "logOutController cfg destroy_err c =
     (let hs = clearAuthCookies cfg;
          c1 = c\<lparr>jar := apply_set_cookies (jar c) hs\<rparr>;
          (c2, lg) =
            (case req_session c1 of
               None \<Rightarrow> (c1, [])
             | Some s \<Rightarrow>
                 (case destroy_err of
                    Some err \<Rightarrow> (c1\<lparr>req_session := None\<rparr>, [err])
                  | None \<Rightarrow> (c1\<lparr>req_session := None, session_store := (session_store c1)(s := None)\<rparr>, [])));
          c3 = (case ctx_user c2 of Some u \<Rightarrow> c2\<lparr>ctx_user := None\<rparr> | None \<Rightarrow> c2)
      in \<lparr>ctx = c3, logout_response = (200, ''Logged out successfully''),
          logout_cookies = hs, logged = lg\<rparr>)"

text \<open>The session the request came with is gone: detached from the request and absent from the store.\<close>

definition session_absent :: "logout_ctx \<Rightarrow> logout_ctx \<Rightarrow> bool" where
  "session_absent c0 c =
     (req_session c = None \<and>
      (case req_session c0 of None \<Rightarrow> True | Some s \<Rightarrow> session_store c s = None))"

definition cookies_absent :: "logout_ctx \<Rightarrow> bool" where
  "cookies_absent c = (jar c ''auth_token'' = None \<and> jar c ''auth_user'' = None)"

section \<open>The application (index.ts)\<close>

text \<open>
  The client and the server between requests: the cookies the client holds and the
  session store, from session ids to the user serialised into the session.
\<close>

record world =
  w_jar :: cookie_jar
  w_store :: "sid \<Rightarrow> UserDocument option"

text \<open>
  What the middleware chain of \<^verbatim>\<open>index.ts\<close> attaches to a request before a route runs.
  The session middleware loads the session named by the \<^verbatim>\<open>session_id\<close> cookie when the
  store has it, and otherwise starts a new, unsaved session under a newly generated id
  \<open>fresh\<close>; \<^verbatim>\<open>passport.session()\<close> attaches the user of the session as \<^verbatim>\<open>req.user\<close>.
  No middleware of the chain parses cookies, so \<^verbatim>\<open>req.cookies\<close> stays undefined,
  whatever cookies the client sends.
\<close>

definition attach_session :: "sid \<Rightarrow> world \<Rightarrow> sid \<times> UserDocument option" where
  "attach_session fresh w =
     (case w_jar w ''session_id'' of
        Some (SessionId s) \<Rightarrow>
          (case w_store w s of
             Some u \<Rightarrow> (s, Some u)
           | None \<Rightarrow> (fresh, None))
      | _ \<Rightarrow> (fresh, None))"

definition app_request :: "sid \<Rightarrow> world \<Rightarrow> Request" where
  "app_request fresh w =
     \<lparr>req_user = map_option WithId (snd (attach_session fresh w)), cookies = None\<rparr>"




section \<open>Sample data\<close>

text \<open>
  A small permission table and database on which the theorems below are instantiated.
  The table is an example of the shape of \<^verbatim>\<open>RolePermissions\<close>, not the table of the
  repository.
\<close>

definition sample_table :: role_table where
  "sample_table =
     [''OWNER'' \<mapsto> [''EDIT_WORKSPACE'', ''DELETE_WORKSPACE'', ''VIEW_ONLY''],
      ''MEMBER'' \<mapsto> [''VIEW_ONLY'']]"

definition sample_roles :: "RoleDocument list" where
  "sample_roles = [\<lparr>role_id = 0, role_name = ''OWNER''\<rparr>, \<lparr>role_id = 1, role_name = ''MEMBER''\<rparr>]"

definition alice :: UserDocument where
  "alice = \<lparr>user_id = 2, email = ''alice@example.com'', password = Some (hashValue ''secret''),
            isActive = True, currentWorkspace = Some 3\<rparr>"

definition sample_db :: db where
  "sample_db =
     \<lparr>users = [alice],
      accounts = [\<lparr>acc_userId = 2, provider = EMAIL, providerId = ''alice@example.com''\<rparr>],
      workspaces = [\<lparr>ws_id = 3, ws_owner = 2, inviteCode = ''abcd1234''\<rparr>],
      members = [\<lparr>userId = 2, workspaceId = 3, role = 0\<rparr>],
      roles = sample_roles,
      next_oid = 4\<rparr>"

definition sample_cfg :: config where
  "sample_cfg = \<lparr>SESSION_SECRET = ''s3cret'', NODE_ENV = ''development''\<rparr>"

definition alice_claims :: JWTPayload where
  "alice_claims = \<lparr>jwt_id = 2, jwt_email = ''alice@example.com'', jwt_role = None\<rparr>"

definition forged_token :: token_string where
  "forged_token =
     (let body = \<lparr>claims = alice_claims, iat = 1000, exp = Some 90000,
                  iss = Some ''team-sync-app'', aud = Some ''team-sync-users''\<rparr>
      in Compact body (HS256 ''guess'' body))"

definition sample_ctx :: logout_ctx where
  "sample_ctx =
     \<lparr>jar = [''auth_token'' \<mapsto> TokenValue (generateJWT sample_cfg 1000 alice_claims),
             ''auth_user'' \<mapsto> UserValue alice_claims],
      session_store = [7 \<mapsto> alice],
      req_session = Some 7,
      ctx_user = Some alice\<rparr>"

definition store_down :: exn where
  "store_down = PlainError ''session store unavailable''"

definition forged_world :: world where
  "forged_world =
     \<lparr>w_jar = [''auth_token'' \<mapsto> TokenValue forged_token, ''auth_user'' \<mapsto> UserValue alice_claims],
      w_store = Map.empty\<rparr>"

definition alice_token :: token_string where
  "alice_token = generateJWT sample_cfg 1000 alice_claims"


definition logged_in_world :: world where
  "logged_in_world =
     \<lparr>w_jar = [''session_id'' \<mapsto> SessionId 7,
               ''auth_token'' \<mapsto> TokenValue alice_token,
               ''auth_user'' \<mapsto> UserValue alice_claims],
      w_store = [7 \<mapsto> alice]\<rparr>"

definition dave :: UserDocument where
  "dave = \<lparr>user_id = 9, email = ''dave@example.com'', password = Some (hashValue ''hunter2''),
           isActive = True, currentWorkspace = None\<rparr>"

definition team_db :: db where
  "team_db = sample_db\<lparr>users := [alice, dave]\<rparr>"

definition dave_joins :: join_request where
  "dave_joins = \<lparr>j_userId = 9, j_inviteCode = ''abcd1234'', j_pc = AtFindWorkspace\<rparr>"

section \<open>Helper lemmas\<close>

lemma includes_arr_set: "includes_arr xs p = (p \<in> set xs)"
  by (induction xs) auto

lemma every_all: "every f xs = (\<forall>x \<in> set xs. f x)"
  by (induction xs) auto

lemma findOne_None: "(findOne f xs = None) = (\<not> list_ex f xs)"
  by (induction xs) auto

lemma findOne_Some: "findOne f xs = Some x \<Longrightarrow> f x \<and> x \<in> set xs"
  by (induction xs) (auto split: if_splits)

lemma verifyJWT_error_not_unauthorized:
  "verifyJWT cfg now token = Inl e \<Longrightarrow> \<not> isUnauthorizedException e"
  by (auto simp: verifyJWT_def jwt_verify_def split: token_string.splits if_splits)

lemma store_reads_simps:
  "store_reads [] = 0"
  "store_reads (VerifyToken t # tr) = store_reads tr"
  "store_reads (StoreRead i # tr) = Suc (store_reads tr)"
  by (simp_all add: store_reads_def)

lemma token_fallback_reads: "store_reads (snd (token_fallback cfg now store req)) \<le> 1"
  by (simp add: token_fallback_def store_reads_simps split: option.splits sum.splits)

lemma requireAuth_unparsed_cookies:
  assumes "session_identity req = None" and "cookies req = None"
  shows "requireAuth cfg now store req = \<lparr>outcome = Inl TypeError, res_cookies = [], trace = []\<rparr>"
  using assms by (simp add: requireAuth_def token_fallback_def)

lemma requireAuth_parsed_invalid_token:
  assumes "session_identity req = None" and "cookies req = Some c"
    and "c ''auth_token'' = Some token" and "\<not> empty_string token"
    and "verifyJWT cfg now token = Inl e"
  shows "requireAuth cfg now store req =
           \<lparr>outcome = Inl (UnauthorizedException
                             ''Invalid authentication token. Please log in again.''),
            res_cookies = clearAuthCookies cfg, trace = [VerifyToken token]\<rparr>"
proof -
  from assms(5) have "\<not> isUnauthorizedException e"
    by (rule verifyJWT_error_not_unauthorized)
  with assms show ?thesis
    by (simp add: requireAuth_def token_fallback_def clearAuthCookies_def Let_def)
qed

lemma requireAuth_parsed_no_token:
  assumes "session_identity req = None" and "cookies req = Some c"
    and "token_absent (c ''auth_token'')"
  shows "requireAuth cfg now store req =
           \<lparr>outcome = Inl (UnauthorizedException ''Unauthorized. Please log in.''),
            res_cookies = [], trace = []\<rparr>"
  using assms
  by (simp add: requireAuth_def token_fallback_def token_absent_def split: option.splits)


lemma app_request_cookies: "cookies (app_request fresh w) = None"
  by (simp add: app_request_def)

lemma clearAuthCookies_jar:
  "apply_set_cookies j (clearAuthCookies cfg) = j(''auth_token'' := None, ''auth_user'' := None)"
  by (simp add: apply_set_cookies_def clearAuthCookies_def Let_def)

lemma join_steps_sequential:
  "join_steps 4 d \<lparr>j_userId = uid, j_inviteCode = code, j_pc = AtFindWorkspace\<rparr> =
     (\<lparr>j_userId = uid, j_inviteCode = code,
       j_pc = Returned (fst (joinWorkspaceByInviteService d uid code))\<rparr>,
      snd (joinWorkspaceByInviteService d uid code))"
  by (simp add: eval_nat_numeral join_step_def joinWorkspaceByInviteService_def Let_def
      split: option.splits)

lemma logOutController_ctx:
  "ctx (logOutController cfg destroy_err c) =
     \<lparr>jar = (jar c)(''auth_token'' := None, ''auth_user'' := None),
      session_store =
        (case (req_session c, destroy_err) of
           (Some s, None) \<Rightarrow> (session_store c)(s := None)
         | _ \<Rightarrow> session_store c),
      req_session = None,
      ctx_user = None\<rparr>"
  by (cases c) (simp add: logOutController_def clearAuthCookies_jar Let_def split: option.splits)


lemma attach_session_fresh:
  assumes "w_store w fresh = None"
  shows "w_store w (fst (attach_session fresh w)) = None \<longleftrightarrow> snd (attach_session fresh w) = None"
  using assms
  by (auto simp: attach_session_def split: option.splits cookie_value.splits)

lemma inv_join:
  "membership_inv d \<Longrightarrow> membership_inv (snd (joinWorkspaceByInviteService d uid code))"
  by (auto simp: membership_inv_def at_most_one_membership_def ids_below_def joinWorkspaceByInviteService_def
      Let_def findOne_None list_all_iff membership_key_def list_ex_iff
      split: option.splits dest!: findOne_Some)

lemma inv_createWorkspace:
  "membership_inv d \<Longrightarrow> membership_inv (snd (createWorkspaceService d uid code))"
  by (auto simp: membership_inv_def at_most_one_membership_def ids_below_def createWorkspaceService_def
      Let_def list_all_iff membership_key_def less_Suc_eq
      split: option.splits)

lemma inv_create_user:
  "membership_inv d \<Longrightarrow> membership_inv (snd (create_user_with_workspace d em pw prov pid code))"
  by (auto simp: membership_inv_def at_most_one_membership_def ids_below_def create_user_with_workspace_def
      Let_def list_all_iff membership_key_def less_Suc_eq
      split: option.splits)

lemma inv_register:
  "membership_inv d \<Longrightarrow> membership_inv (snd (registerUserService d em pw code))"
  using inv_create_user [of d em "Some pw" EMAIL em code]
  by (auto simp: registerUserService_def split: option.splits sum.splits prod.splits)

lemma inv_loginOrCreate:
  "membership_inv d \<Longrightarrow> membership_inv (snd (loginOrCreateAccountService d prov pid em code))"
  using inv_create_user [of d em None prov pid code]
  by (auto simp: loginOrCreateAccountService_def split: option.splits sum.splits prod.splits)

lemma updateOne_keys:
  "map membership_key (updateOne f (\<lambda>m. m\<lparr>role := r\<rparr>) ms) = map membership_key ms"
  by (induction ms) (auto simp: membership_key_def)

lemma updateOne_workspaceIds:
  "map workspaceId (updateOne f (\<lambda>m. m\<lparr>role := r\<rparr>) ms) = map workspaceId ms"
  by (induction ms) auto

lemma list_all_workspaceId:
  "list_all (\<lambda>m. workspaceId m < n) ms = (\<forall>w \<in> set (map workspaceId ms). w < n)"
  by (auto simp: list_all_iff)

lemma inv_changeMemberRole:
  "membership_inv d \<Longrightarrow> membership_inv (snd (changeMemberRoleService d wid memberId roleId))"
  by (auto simp: membership_inv_def at_most_one_membership_def ids_below_def changeMemberRoleService_def
      updateOne_keys list_all_workspaceId updateOne_workspaceIds
      simp del: set_map split: option.splits)

lemma inv_deleteWorkspace:
  "membership_inv d \<Longrightarrow> membership_inv (snd (deleteWorkspaceService d wid uid))"
  by (auto simp: membership_inv_def at_most_one_membership_def ids_below_def deleteWorkspaceService_def
      Let_def list_all_iff distinct_map_filter
      split: option.splits)

lemma inv_call: "membership_inv d \<Longrightarrow> membership_inv (call d c)"
  by (cases c)
     (simp_all add: inv_join inv_createWorkspace inv_register inv_loginOrCreate
        inv_changeMemberRole inv_deleteWorkspace)

lemma inv_run: "membership_inv d \<Longrightarrow> membership_inv (run d cs)"
  by (induction cs arbitrary: d) (simp_all add: inv_call)

lemma initial_inv: "initial d \<Longrightarrow> membership_inv d"
  by (simp add: initial_def membership_inv_def at_most_one_membership_def ids_below_def)

lemma sequential_calls_keep_at_most_one_membership:
  "initial d0 \<Longrightarrow> at_most_one_membership (run d0 cs)"
  using initial_inv [of d0] inv_run [of d0 cs] by (simp add: membership_inv_def)

lemma join_rejects_existing_membership:
  assumes "findOne (\<lambda>w. inviteCode w = code) (workspaces d) = Some w"
    and "\<not> no_membership d uid (ws_id w)"
  shows "joinWorkspaceByInviteService d uid code =
           (Inl (BadRequestException ''You are already a member of this workspace''), d)"
proof -
  from assms(2)
  have "findOne (\<lambda>m. userId m = uid \<and> workspaceId m = ws_id w) (members d) \<noteq> None"
    by (simp add: findOne_None no_membership_def)
  with assms(1) show ?thesis
    by (auto simp: joinWorkspaceByInviteService_def)
qed

section \<open>Permission guard\<close>

text \<open>
  C4. For a role of the permission table, \<open>roleGuard\<close> succeeds exactly when every
  required permission is among the permissions of the role; otherwise, so as soon as one
  required permission is missing, it fails with the Unauthorized exception. The result
  is a function of the table, the role and the required list alone.
\<close>

theorem roleGuard_conjunctive:
  assumes "RolePermissions r = Some permissions"
  shows "(roleGuard RolePermissions r required = Inr ()) = (set required \<subseteq> set permissions)
       \<and> (roleGuard RolePermissions r required =
            (if set required \<subseteq> set permissions then Inr ()
             else Inl (UnauthorizedException
                    ''You do not have the necessary permissions to perform this action'')))"
  using assms by (auto simp: roleGuard_def every_all includes_arr_set)

theorem roleGuard_conjunctive_witness:
  "sample_table ''MEMBER'' = Some [''VIEW_ONLY'']
   \<and> roleGuard sample_table ''MEMBER'' [''VIEW_ONLY'', ''DELETE_WORKSPACE''] =
       Inl (UnauthorizedException ''You do not have the necessary permissions to perform this action'')
   \<and> roleGuard sample_table ''MEMBER'' [''VIEW_ONLY''] = Inr ()"
proof -
  have h: "sample_table ''MEMBER'' = Some [''VIEW_ONLY'']"
    by (simp add: sample_table_def)
  show ?thesis
    using h
      roleGuard_conjunctive [of sample_table "''MEMBER''" "[''VIEW_ONLY'']"
        "[''VIEW_ONLY'', ''DELETE_WORKSPACE'']"]
      roleGuard_conjunctive [of sample_table "''MEMBER''" "[''VIEW_ONLY'']" "[''VIEW_ONLY'']"]
    by simp
qed

section \<open>Role resolver\<close>

text \<open>
  C1, as stated, fails: for a pair without a Membership row whose workspace does not
  exist, the resolver throws NotFound, not Unauthorized.
\<close>

theorem resolveRole_missing_workspace_counterexample:
  "no_membership empty_db 2 3
   \<and> getMemberRoleInWorkspace empty_db 2 3 = Inl (NotFoundException ''Workspace not found'')"
  by (simp add: no_membership_def getMemberRoleInWorkspace_def empty_db_def)

text \<open>
  C1, amended. For a pair without a Membership row, the resolver throws Unauthorized when
  the workspace exists and NotFound when it does not; it never returns a role.
\<close>

theorem resolveRole_no_membership:
  assumes "no_membership d uid wid"
  shows "getMemberRoleInWorkspace d uid wid =
           (if workspace_exists d wid
            then Inl (UnauthorizedException ''You are not a member of this workspace'')
            else Inl (NotFoundException ''Workspace not found''))"
proof (cases "findOne (\<lambda>w. ws_id w = wid) (workspaces d)")
  case None
  then have "\<not> workspace_exists d wid"
    by (simp add: findOne_None workspace_exists_def)
  with None show ?thesis
    by (simp add: getMemberRoleInWorkspace_def)
next
  case (Some w)
  then have ex: "workspace_exists d wid"
    using findOne_None [of "\<lambda>w. ws_id w = wid" "workspaces d"]
    by (simp add: workspace_exists_def)
  from assms have "findOne (\<lambda>m. userId m = uid \<and> workspaceId m = wid) (members d) = None"
    by (simp add: findOne_None no_membership_def)
  with Some ex show ?thesis
    by (simp add: getMemberRoleInWorkspace_def)
qed

theorem resolveRole_no_membership_witness:
  "no_membership sample_db 9 3
   \<and> getMemberRoleInWorkspace sample_db 9 3 =
       Inl (UnauthorizedException ''You are not a member of this workspace'')"
proof -
  have h: "no_membership sample_db 9 3"
    by (simp add: no_membership_def sample_db_def)
  have w: "workspace_exists sample_db 3"
    by (simp add: workspace_exists_def sample_db_def)
  show ?thesis
    using h w resolveRole_no_membership [OF h] by simp
qed

section \<open>Token codec\<close>

text \<open>
  C6. A token signed for any claims with a time to live \<open>ttl\<close> and verified before its
  expiry, under the same secret, issuer and audience, is accepted with its claims
  unchanged; so is a token of \<open>generateJWT\<close> that \<open>verifyJWT\<close> checks within 24 hours.
\<close>

theorem token_round_trip:
  assumes "0 < ttl" and "t < now + ttl"
  shows "map_sum id claims
           (jwt_verify (jwt_sign payload secret ttl issuer audience now) secret issuer audience t)
         = Inr payload
       \<and> (t < now + 24 * 60 * 60 \<longrightarrow>
            map_sum id claims (verifyJWT cfg t (generateJWT cfg now payload)) = Inr payload)"
  using assms by (simp add: jwt_verify_def jwt_sign_def verifyJWT_def generateJWT_def Let_def)

theorem token_round_trip_witness:
  "(0::nat) < 3600 \<and> (4000::nat) < 1000 + 3600
   \<and> map_sum id claims
        (jwt_verify (jwt_sign alice_claims ''k'' 3600 ''i'' ''a'' 1000) ''k'' ''i'' ''a'' 4000)
      = Inr alice_claims
   \<and> map_sum id claims (verifyJWT sample_cfg 4000 (generateJWT sample_cfg 1000 alice_claims))
      = Inr alice_claims"
  using token_round_trip [of 3600 4000 1000 alice_claims "''k''" "''i''" "''a''" sample_cfg]
  by simp

section \<open>Hybrid authentication resolver\<close>

text \<open>
  C2, at a failing input. The client holds an \<^verbatim>\<open>auth_token\<close> cookie whose token has a
  forged signature and has no session. On the request as the application attaches it,
  the resolver does not reach the verification of the token: reading the cookie throws
  a TypeError, the error the request ends with; the response clears no cookie, and no
  Unauthorized exception is thrown.
\<close>

theorem invalid_token_unparsed_cookies:
  "w_jar forged_world ''auth_token'' = Some (TokenValue forged_token)
   \<and> verifyJWT sample_cfg 2000 forged_token = Inl (JsonWebTokenError ''invalid signature'')
   \<and> requireAuth sample_cfg 2000 (UserModel_findById_populate sample_db) (app_request 1 forged_world)
       = \<lparr>outcome = Inl TypeError, res_cookies = [], trace = []\<rparr>"
proof -
  have v: "verifyJWT sample_cfg 2000 forged_token = Inl (JsonWebTokenError ''invalid signature'')"
    by (simp add: verifyJWT_def jwt_verify_def forged_token_def sample_cfg_def Let_def)
  have s: "session_identity (app_request 1 forged_world) = None"
    by (simp add: session_identity_def app_request_def attach_session_def forged_world_def)
  show ?thesis
    using v requireAuth_unparsed_cookies [OF s app_request_cookies]
    by (simp add: forged_world_def)
qed


text \<open>
  C5. A request that arrives with a session user attached is accepted at once with that
  user: no token is verified, the Credential Store is not read and no cookie is touched.
  Whatever the request, the resolver reads the Credential Store at most once.
\<close>

theorem session_first_short_circuit:
  "(session_identity req = Some user \<longrightarrow>
      requireAuth cfg now store req = \<lparr>outcome = Inr user, res_cookies = [], trace = []\<rparr>)
   \<and> store_reads (trace (requireAuth cfg now store req)) \<le> 1"
proof -
  have "store_reads (trace (requireAuth cfg now store req)) \<le> 1"
    using token_fallback_reads [of cfg now store req]
    by (cases "token_fallback cfg now store req")
       (auto simp: requireAuth_def store_reads_simps Let_def split: option.splits sum.splits)
  then show ?thesis
    by (simp add: requireAuth_def)
qed

theorem session_first_short_circuit_witness:
  "session_identity (app_request 1 logged_in_world) = Some alice
   \<and> requireAuth sample_cfg 2000 (UserModel_findById_populate sample_db)
        (app_request 1 logged_in_world)
       = \<lparr>outcome = Inr alice, res_cookies = [], trace = []\<rparr>"
proof -
  have s: "session_identity (app_request 1 logged_in_world) = Some alice"
    by (simp add: session_identity_def app_request_def attach_session_def logged_in_world_def)
  show ?thesis
    using s session_first_short_circuit [of "app_request 1 logged_in_world" alice sample_cfg 2000
            "UserModel_findById_populate sample_db"]
    by simp
qed

section \<open>Revocation\<close>

text \<open>
  C8. Logout always answers 200 with its success message and clears both credential
  cookies, whether or not a session is attached and whether or not the session store
  fails to destroy it; a failure of the store is logged and goes nowhere else.
\<close>

theorem logout_never_fails:
  "logout_response (logOutController cfg destroy_err c) = (200, ''Logged out successfully'')
   \<and> logout_cookies (logOutController cfg destroy_err c) = clearAuthCookies cfg
   \<and> cookies_absent (ctx (logOutController cfg destroy_err c))
   \<and> logged (logOutController cfg destroy_err c) =
       (case (req_session c, destroy_err) of (Some s, Some err) \<Rightarrow> [err] | _ \<Rightarrow> [])"
proof -
  have "cookies_absent (ctx (logOutController cfg destroy_err c))"
    by (simp add: logOutController_ctx cookies_absent_def)
  moreover
  have "logged (logOutController cfg destroy_err c) =
          (case (req_session c, destroy_err) of (Some s, Some err) \<Rightarrow> [err] | _ \<Rightarrow> [])"
    by (simp add: logOutController_def Let_def split: option.splits)
  moreover
  have "logout_response (logOutController cfg destroy_err c) = (200, ''Logged out successfully'')"
    by (simp add: logOutController_def Let_def split: option.splits prod.splits)
  moreover
  have "logout_cookies (logOutController cfg destroy_err c) = clearAuthCookies cfg"
    by (simp add: logOutController_def Let_def split: option.splits prod.splits)
  ultimately show ?thesis by simp
qed

theorem logout_never_fails_witness:
  "logout_response (logOutController sample_cfg (Some store_down) sample_ctx) =
     (200, ''Logged out successfully'')
   \<and> cookies_absent (ctx (logOutController sample_cfg (Some store_down) sample_ctx))
   \<and> logged (logOutController sample_cfg (Some store_down) sample_ctx) = [store_down]"
  using logout_never_fails [of sample_cfg "Some store_down" sample_ctx]
  by (simp add: sample_ctx_def)




section \<open>Login\<close>

text \<open>
  C10, as stated, fails: a login for an unknown account produces no user, and the
  controller sends no 401 response; it passes a NotFound exception to the error handler.
\<close>

theorem login_unknown_account_counterexample:
  "cb_user (passport_authenticate_local sample_db
      \<lparr>body_email = Some ''nobody@example.com'', body_password = Some ''secret''\<rparr>) = None
   \<and> loginController sample_cfg 2000 sample_db None
        \<lparr>body_email = Some ''nobody@example.com'', body_password = Some ''secret''\<rparr>
     = \<lparr>response = None, forwarded = Some (NotFoundException ''Invalid email or password''),
        session_user = None, login_cookies = []\<rparr>"
  by (simp add: loginController_def login_callback_def passport_authenticate_local_def
      verifyUserService_def sample_db_def)

text \<open>
  C10, amended. A login attempt whose verification produces no user issues no credential:
  no session is established and no cookie is written. The controller answers 401 itself
  when the strategy failed without an error, and otherwise passes the error of the
  strategy to the error handler without responding. Whatever the attempt, cookies are
  written only when the session login step has succeeded.
\<close>

theorem failed_login_issues_nothing:
  assumes "cb_user (passport_authenticate_local d b) = None"
  shows "session_user (loginController cfg now d logIn_err b) = None
       \<and> login_cookies (loginController cfg now d logIn_err b) = []
       \<and> (case cb_err (passport_authenticate_local d b) of
            None \<Rightarrow> map_option fst (response (loginController cfg now d logIn_err b)) = Some 401
                    \<and> forwarded (loginController cfg now d logIn_err b) = None
          | Some err \<Rightarrow> response (loginController cfg now d logIn_err b) = None
                    \<and> forwarded (loginController cfg now d logIn_err b) = Some err)
       \<and> (login_cookies (loginController cfg now d' logIn_err' b') \<noteq> [] \<longrightarrow>
            logIn_err' = None
            \<and> session_user (loginController cfg now d' logIn_err' b') \<noteq> None)"
proof -
  have "login_cookies (loginController cfg now d' logIn_err' b') \<noteq> [] \<longrightarrow>
          logIn_err' = None \<and> session_user (loginController cfg now d' logIn_err' b') \<noteq> None"
    by (simp add: loginController_def login_callback_def split: option.splits)
  with assms show ?thesis
    by (simp add: loginController_def login_callback_def split: option.splits)
qed

theorem failed_login_issues_nothing_witness:
  "cb_user (passport_authenticate_local sample_db
      \<lparr>body_email = Some ''alice@example.com'', body_password = Some ''wrong''\<rparr>) = None
   \<and> loginController sample_cfg 2000 sample_db None
        \<lparr>body_email = Some ''alice@example.com'', body_password = Some ''wrong''\<rparr>
     = \<lparr>response = None, forwarded = Some (UnauthorizedException ''Invalid email or password''),
        session_user = None, login_cookies = []\<rparr>
   \<and> response (loginController sample_cfg 2000 sample_db None
        \<lparr>body_email = Some ''alice@example.com'', body_password = None\<rparr>)
     = Some (401, ''Missing credentials'')"
proof -
  let ?b = "\<lparr>body_email = Some ''alice@example.com'', body_password = Some ''wrong''\<rparr>"
  have a: "passport_authenticate_local sample_db ?b =
             \<lparr>cb_err = Some (UnauthorizedException ''Invalid email or password''),
              cb_user = None, cb_info = None\<rparr>"
    by (simp add: passport_authenticate_local_def verifyUserService_def sample_db_def alice_def
        compareValue_def hashValue_def)
  have r: "response (loginController sample_cfg 2000 sample_db None
             \<lparr>body_email = Some ''alice@example.com'', body_password = None\<rparr>)
           = Some (401, ''Missing credentials'')"
    by (simp add: loginController_def login_callback_def passport_authenticate_local_def)
  show ?thesis
    using a r failed_login_issues_nothing [of sample_db ?b sample_cfg 2000 None]
    by (cases "loginController sample_cfg 2000 sample_db None ?b") simp
qed

section \<open>Membership\<close>

text \<open>
  C7, at a failing input. One user, not yet a member, sends the same join request twice
  and the two requests are in flight together: their awaited database calls complete in
  turn. Both requests look for an existing membership before either saves its new one,
  both find none, and both save. The database, which held at most one membership per
  user and workspace, now holds two rows for this user and this workspace, and both
  requests return success.
\<close>

theorem interleaved_joins_duplicate_membership:
  "at_most_one_membership team_db
   \<and> interleave (team_db, [dave_joins, dave_joins]) [0, 1, 0, 1, 0, 1, 0, 1]
       = (team_db\<lparr>members := [\<lparr>userId = 2, workspaceId = 3, role = 0\<rparr>,
                               \<lparr>userId = 9, workspaceId = 3, role = 1\<rparr>,
                               \<lparr>userId = 9, workspaceId = 3, role = 1\<rparr>]\<rparr>,
          [dave_joins\<lparr>j_pc := Returned (Inr (3, ''MEMBER''))\<rparr>,
           dave_joins\<lparr>j_pc := Returned (Inr (3, ''MEMBER''))\<rparr>])
   \<and> \<not> at_most_one_membership
         (fst (interleave (team_db, [dave_joins, dave_joins]) [0, 1, 0, 1, 0, 1, 0, 1]))"
proof -
  have i: "interleave (team_db, [dave_joins, dave_joins]) [0, 1, 0, 1, 0, 1, 0, 1]
           = (team_db\<lparr>members := [\<lparr>userId = 2, workspaceId = 3, role = 0\<rparr>,
                                   \<lparr>userId = 9, workspaceId = 3, role = 1\<rparr>,
                                   \<lparr>userId = 9, workspaceId = 3, role = 1\<rparr>]\<rparr>,
              [dave_joins\<lparr>j_pc := Returned (Inr (3, ''MEMBER''))\<rparr>,
               dave_joins\<lparr>j_pc := Returned (Inr (3, ''MEMBER''))\<rparr>])"
    by (simp add: interleave_def schedule_step_def join_step_def dave_joins_def team_db_def
        sample_db_def sample_roles_def Let_def)
  have a: "at_most_one_membership team_db"
    by (simp add: at_most_one_membership_def membership_key_def team_db_def sample_db_def)
  show ?thesis
    unfolding i using a by (simp add: at_most_one_membership_def membership_key_def)
qed

end
